theory Spec2Isabelle
  imports Main
begin

section \<open>The page as the script sees it\<close>

text \<open>
  The theme script of \<^verbatim>\<open>static/script.js\<close> touches four things: the origin's
  \<^verbatim>\<open>localStorage\<close>, the media query \<^verbatim>\<open>(prefers-color-scheme: dark)\<close>, the
  attributes of \<^verbatim>\<open>document.documentElement\<close>, and the element with id
  \<^verbatim>\<open>themeToggle\<close> together with its first \<^verbatim>\<open>i\<close> descendant. They are the fields
  of the record \<open>world\<close>. A JavaScript value that is either \<^verbatim>\<open>null\<close> or a string
  (the result of \<^verbatim>\<open>getItem\<close> and \<^verbatim>\<open>getAttribute\<close>) is a \<open>string option\<close>, an element
  lookup that may return \<^verbatim>\<open>null\<close> is an \<open>option\<close> of the element. The storage
  and the root element are taken to be available, as the script takes them.
\<close>

datatype js_error = TypeError

datatype listener = ToggleClick

record element =
  className :: string

record button =
  icon :: "element option"
  listeners :: "listener list"

record world =
  localStorage :: "string \<rightharpoonup> string"
  prefersDark :: bool
  rootAttrs :: "string \<rightharpoonup> string"
  themeToggle :: "button option"

subsection \<open>Host operations\<close>

definition getItem :: "string \<Rightarrow> world \<Rightarrow> string option" where
  "getItem k w = localStorage w k"

definition setItem :: "string \<Rightarrow> string \<Rightarrow> world \<Rightarrow> world" where
  "setItem k v w = w\<lparr>localStorage := (localStorage w)(k \<mapsto> v)\<rparr>"

definition matchMedia_dark :: "world \<Rightarrow> bool" where
  "matchMedia_dark w = prefersDark w"

definition setAttribute :: "string \<Rightarrow> string \<Rightarrow> world \<Rightarrow> world" where
  "setAttribute a v w = w\<lparr>rootAttrs := (rootAttrs w)(a \<mapsto> v)\<rparr>"

definition getAttribute :: "string \<Rightarrow> world \<Rightarrow> string option" where
  "getAttribute a w = rootAttrs w a"

text \<open>\<^verbatim>\<open>document.getElementById('themeToggle')\<close>\<close>

definition getElementById_themeToggle :: "world \<Rightarrow> button option" where
  "getElementById_themeToggle w = themeToggle w"

text \<open>\<^verbatim>\<open>document.querySelector('#themeToggle i')\<close>\<close>

definition querySelector_themeToggle_i :: "world \<Rightarrow> element option" where
  "querySelector_themeToggle_i w =
     (case themeToggle w of None \<Rightarrow> None | Some b \<Rightarrow> icon b)"

text \<open>
  \<^verbatim>\<open>ref.className = c\<close> on the icon reference and \<^verbatim>\<open>ref.addEventListener('click', l)\<close>
  on the button reference. Both throw a \<^verbatim>\<open>TypeError\<close> when the reference is
  \<^verbatim>\<open>null\<close>.
\<close>

definition assign_className :: "element option \<Rightarrow> string \<Rightarrow> world \<Rightarrow> js_error + world" where
  "assign_className ref c w =
     (case ref of
        None \<Rightarrow> Inl TypeError
      | Some _ \<Rightarrow>
          Inr (w\<lparr>themeToggle :=
                 map_option (\<lambda>b. b\<lparr>icon := map_option (\<lambda>i. i\<lparr>className := c\<rparr>) (icon b)\<rparr>)
                   (themeToggle w)\<rparr>))"

definition addEventListener_click :: "button option \<Rightarrow> listener \<Rightarrow> world \<Rightarrow> js_error + world" where
  "addEventListener_click ref l w =
     (case ref of
        None \<Rightarrow> Inl TypeError
      | Some _ \<Rightarrow>
          Inr (w\<lparr>themeToggle :=
                 map_option (\<lambda>b. b\<lparr>listeners := listeners b @ [l]\<rparr>) (themeToggle w)\<rparr>))"

text \<open>
  The truth value JavaScript gives to a value that is \<^verbatim>\<open>null\<close> or a string:
  \<^verbatim>\<open>null\<close> and the empty string are falsy, every other string is truthy.
\<close>

fun truthy :: "string option \<Rightarrow> bool" where
  "truthy None = False"
| "truthy (Some s) = (s \<noteq> [])"

section \<open>The script\<close>

subsection \<open>Preference store\<close>

definition getStoredTheme :: "world \<Rightarrow> string option" where
  "getStoredTheme w = getItem ''theme'' w"

definition setStoredTheme :: "string \<Rightarrow> world \<Rightarrow> world" where
  "setStoredTheme theme w = setItem ''theme'' theme w"

subsection \<open>Preference resolver\<close>

definition getPreferredTheme :: "world \<Rightarrow> string" where
  "getPreferredTheme w =
     (let storedTheme = getStoredTheme w in
      case storedTheme of
        Some s \<Rightarrow>
          if truthy storedTheme then s
          else if matchMedia_dark w then ''dark'' else ''light''
      | None \<Rightarrow> if matchMedia_dark w then ''dark'' else ''light'')"

subsection \<open>Theme applier\<close>

definition setTheme :: "string \<Rightarrow> world \<Rightarrow> js_error + world" where
  "setTheme theme w =
     (let w1 = setAttribute ''data-bs-theme'' theme w;
          toggleBtn = querySelector_themeToggle_i w1
      in if toggleBtn \<noteq> None then
           (if theme = ''dark'' then assign_className toggleBtn ''bi bi-sun-fill fs-5'' w1
            else assign_className toggleBtn ''bi bi-moon-stars-fill fs-5'' w1)
         else Inr w1)"

text \<open>The statement \<^verbatim>\<open>setTheme(getPreferredTheme())\<close> that the script runs when it is evaluated.\<close>

definition init :: "world \<Rightarrow> js_error + world" where
  "init w = setTheme (getPreferredTheme w) w"

subsection \<open>Toggle controller\<close>

text \<open>The expression \<^verbatim>\<open>currentTheme === 'dark' ? 'light' : 'dark'\<close>.\<close>

definition newTheme :: "string option \<Rightarrow> string" where
  "newTheme currentTheme = (if currentTheme = Some ''dark'' then ''light'' else ''dark'')"

text \<open>The body of the click listener.\<close>

definition onClick :: "world \<Rightarrow> js_error + world" where
  "onClick w =
     (let currentTheme = getAttribute ''data-bs-theme'' w;
          t = newTheme currentTheme
      in setTheme t (setStoredTheme t w))"

text \<open>The body of the \<^verbatim>\<open>DOMContentLoaded\<close> listener.\<close>

definition onDOMContentLoaded :: "world \<Rightarrow> js_error + world" where
  "onDOMContentLoaded w =
     (let toggleBtn = getElementById_themeToggle w
      in if toggleBtn \<noteq> None then addEventListener_click toggleBtn ToggleClick w
         else Inr w)"

subsection \<open>The life of a page\<close>

text \<open>
  After the script has been evaluated the host delivers events: the parser may put the
  toggle control of the markup into the document (or a page without one leaves it out),
  the document reports that it is parsed, and the user clicks on the toggle control. A
  click runs the listeners bound to the control, in the order they were bound; on a page
  without the control there is nothing to click on.
\<close>

datatype event = Markup "button option" | DOMContentLoaded | Click

fun run_listener :: "listener \<Rightarrow> world \<Rightarrow> js_error + world" where
  "run_listener ToggleClick w = onClick w"

fun dispatch :: "listener list \<Rightarrow> world \<Rightarrow> js_error + world" where
  "dispatch [] w = Inr w"
| "dispatch (l # ls) w =
     (case run_listener l w of Inl e \<Rightarrow> Inl e | Inr w' \<Rightarrow> dispatch ls w')"

fun step :: "event \<Rightarrow> world \<Rightarrow> js_error + world" where
  "step (Markup b) w = Inr (w\<lparr>themeToggle := b\<rparr>)"
| "step DOMContentLoaded w = onDOMContentLoaded w"
| "step Click w =
     (case themeToggle w of None \<Rightarrow> Inr w | Some b \<Rightarrow> dispatch (listeners b) w)"

fun run :: "event list \<Rightarrow> world \<Rightarrow> js_error + world" where
  "run [] w = Inr w"
| "run (e # es) w = (case step e w of Inl x \<Rightarrow> Inl x | Inr w' \<Rightarrow> run es w')"

definition page :: "event list \<Rightarrow> world \<Rightarrow> js_error + world" where
  "page es w = (case init w of Inl x \<Rightarrow> Inl x | Inr w' \<Rightarrow> run es w')"

text \<open>The Applied Theme: the value of the root's \<^verbatim>\<open>data-bs-theme\<close> attribute.\<close>

definition appliedTheme :: "world \<Rightarrow> string option" where
  "appliedTheme w = getAttribute ''data-bs-theme'' w"

text \<open>The class of the icon element, when the document has one.\<close>

definition iconClass :: "world \<Rightarrow> string option" where
  "iconClass w = map_option className (querySelector_themeToggle_i w)"

text \<open>The two Theme variants, as values that may also be \<^verbatim>\<open>null\<close>.\<close>

definition isTheme :: "string option \<Rightarrow> bool" where
  "isTheme v = (v = Some ''light'' \<or> v = Some ''dark'')"

text \<open>
  What a click depends on in the toggle control: the listeners it carries and whether it
  has an icon element.
\<close>

definition controlState :: "world \<Rightarrow> (listener list \<times> bool) option" where
  "controlState w = map_option (\<lambda>b. (listeners b, icon b \<noteq> None)) (themeToggle w)"

section \<open>What each operation does to the page\<close>

text \<open>
  \<open>setTheme\<close> never fails: it writes the root attribute and rewrites the class of the
  icon where there is one.
\<close>

lemma setTheme_eq:
  "setTheme t w =
     Inr (w\<lparr>rootAttrs := (rootAttrs w)(''data-bs-theme'' \<mapsto> t),
            themeToggle :=
              map_option
                (\<lambda>b. b\<lparr>icon := map_option
                     (\<lambda>i. i\<lparr>className := (if t = ''dark'' then ''bi bi-sun-fill fs-5''
                                             else ''bi bi-moon-stars-fill fs-5'')\<rparr>) (icon b)\<rparr>)
                (themeToggle w)\<rparr>)"
proof (cases "themeToggle w")
  case None
  then show ?thesis
    by (simp add: setTheme_def setAttribute_def querySelector_themeToggle_i_def)
next
  case (Some b)
  then show ?thesis
    by (cases "icon b")
       (simp_all add: setTheme_def setAttribute_def querySelector_themeToggle_i_def
          assign_className_def)
qed

lemma setTheme_frame:
  assumes "setTheme t w = Inr w'"
  shows "rootAttrs w' = (rootAttrs w)(''data-bs-theme'' \<mapsto> t)"
    and "localStorage w' = localStorage w"
    and "prefersDark w' = prefersDark w"
    and "map_option listeners (themeToggle w') = map_option listeners (themeToggle w)"
  using assms unfolding setTheme_eq by (auto simp: option.map_comp comp_def)

lemma setTheme_no_icon:
  "querySelector_themeToggle_i w = None \<Longrightarrow>
     setTheme t w = Inr (setAttribute ''data-bs-theme'' t w)"
  by (simp add: setTheme_def setAttribute_def querySelector_themeToggle_i_def)

lemma onClick_eq:
  "onClick w = setTheme (newTheme (appliedTheme w)) (setStoredTheme (newTheme (appliedTheme w)) w)"
  by (simp add: onClick_def appliedTheme_def Let_def)

lemma onClick_frame:
  "\<exists>w'. onClick w = Inr w'
     \<and> rootAttrs w' = (rootAttrs w)(''data-bs-theme'' \<mapsto> newTheme (appliedTheme w))
     \<and> localStorage w' = (localStorage w)(''theme'' \<mapsto> newTheme (appliedTheme w))
     \<and> prefersDark w' = prefersDark w"
proof -
  obtain w' where w': "onClick w = Inr w'"
    unfolding onClick_eq setTheme_eq by blast
  from w' [unfolded onClick_eq] show ?thesis
    using setTheme_frame [OF w' [unfolded onClick_eq]] w'
    by (simp add: setStoredTheme_def setItem_def)
qed

lemma newTheme_isTheme: "isTheme (Some (newTheme c))"
  by (simp add: isTheme_def newTheme_def)

lemma onDOMContentLoaded_eq:
  "\<exists>b. onDOMContentLoaded w = Inr (w\<lparr>themeToggle := b\<rparr>)"
proof (cases "themeToggle w")
  case None
  then have "onDOMContentLoaded w = Inr (w\<lparr>themeToggle := None\<rparr>)"
    by (simp add: onDOMContentLoaded_def getElementById_themeToggle_def)
  then show ?thesis ..
next
  case (Some b)
  then have "onDOMContentLoaded w =
      Inr (w\<lparr>themeToggle := Some (b\<lparr>listeners := listeners b @ [ToggleClick]\<rparr>)\<rparr>)"
    by (simp add: onDOMContentLoaded_def getElementById_themeToggle_def
          addEventListener_click_def)
  then show ?thesis ..
qed

subsection \<open>Invariants of a run\<close>

text \<open>
  A property of the page that every run of the click listener keeps, and that does not
  depend on the toggle control, holds after any sequence of events; and no event fails.
\<close>

lemma dispatch_inv:
  assumes "P w" and "\<And>v v'. P v \<Longrightarrow> onClick v = Inr v' \<Longrightarrow> P v'"
  shows "\<exists>w'. dispatch ls w = Inr w' \<and> P w'"
  using assms(1)
proof (induction ls arbitrary: w)
  case Nil
  then show ?case by simp
next
  case (Cons l ls)
  obtain w1 where w1: "onClick w = Inr w1"
    using onClick_frame [of w] by blast
  with Cons.prems assms(2) have "P w1" by blast
  from Cons.IH [OF this] w1 show ?case
    by (cases l) simp
qed

lemma step_noclick:
  "e \<noteq> Click \<Longrightarrow> \<exists>b. step e w = Inr (w\<lparr>themeToggle := b\<rparr>)"
  using onDOMContentLoaded_eq [of w] by (cases e) auto

lemma run_noclick:
  "Click \<notin> set es \<Longrightarrow> \<exists>b. run es w = Inr (w\<lparr>themeToggle := b\<rparr>)"
proof (induction es arbitrary: w)
  case Nil
  have "run [] w = Inr (w\<lparr>themeToggle := themeToggle w\<rparr>)" by simp
  then show ?case ..
next
  case (Cons e es)
  then obtain b where b: "step e w = Inr (w\<lparr>themeToggle := b\<rparr>)"
    using step_noclick [of e w] by auto
  from Cons obtain c
    where "run es (w\<lparr>themeToggle := b\<rparr>) = Inr (w\<lparr>themeToggle := b, themeToggle := c\<rparr>)"
    by fastforce
  with b show ?case by auto
qed

lemma step_inv:
  assumes "P w"
    and "\<And>v v'. P v \<Longrightarrow> onClick v = Inr v' \<Longrightarrow> P v'"
    and "\<And>v b. P v \<Longrightarrow> P (v\<lparr>themeToggle := b\<rparr>)"
  shows "\<exists>w'. step e w = Inr w' \<and> P w'"
proof (cases "e = Click")
  case True
  show ?thesis
  proof (cases "themeToggle w")
    case None
    with True assms(1) show ?thesis by simp
  next
    case (Some b)
    have "\<exists>w'. dispatch (listeners b) w = Inr w' \<and> P w'"
      using assms(1,2) by (rule dispatch_inv)
    with True Some show ?thesis by simp
  qed
next
  case False
  then obtain b where "step e w = Inr (w\<lparr>themeToggle := b\<rparr>)"
    using step_noclick by blast
  with assms(1,3) show ?thesis by simp
qed

lemma run_inv:
  assumes "P w"
    and "\<And>v v'. P v \<Longrightarrow> onClick v = Inr v' \<Longrightarrow> P v'"
    and "\<And>v b. P v \<Longrightarrow> P (v\<lparr>themeToggle := b\<rparr>)"
  shows "\<exists>w'. run es w = Inr w' \<and> P w'"
  using assms(1)
proof (induction es arbitrary: w)
  case Nil
  then show ?case by simp
next
  case (Cons e es)
  have "\<exists>w1. step e w = Inr w1 \<and> P w1"
    using Cons.prems assms(2,3) by (rule step_inv)
  then obtain w1 where w1: "step e w = Inr w1" and "P w1" by blast
  from Cons.IH [OF \<open>P w1\<close>] w1 show ?case by simp
qed

lemma init_frame:
  "\<exists>w0. init w = Inr w0
     \<and> appliedTheme w0 = Some (getPreferredTheme w)
     \<and> localStorage w0 = localStorage w
     \<and> prefersDark w0 = prefersDark w"
proof -
  obtain w0 where w0: "init w = Inr w0"
    unfolding init_def setTheme_eq by blast
  with setTheme_frame [OF w0 [unfolded init_def]] show ?thesis
    by (simp add: appliedTheme_def getAttribute_def)
qed

lemma getPreferredTheme_isTheme:
  "getStoredTheme w \<in> {None, Some '''', Some ''light'', Some ''dark''} \<Longrightarrow>
     isTheme (Some (getPreferredTheme w))"
  by (auto simp: getPreferredTheme_def isTheme_def)

lemma onClick_applied_isTheme:
  "onClick v = Inr v' \<Longrightarrow> isTheme (appliedTheme v')"
  using onClick_frame [of v] newTheme_isTheme
  by (auto simp: appliedTheme_def getAttribute_def)

subsection \<open>Binding and clicks\<close>

text \<open>
  \<open>run\<close> and \<open>page\<close> go through a sequence of events part by part. The
  \<open>DOMContentLoaded\<close> listener adds the click listener to a control that is in the
  document, and a click on a control that carries the click listener once is one run of
  it, which leaves the control as it was but for the icon's class.
\<close>

lemma run_append:
  "run (xs @ ys) w = (case run xs w of Inl x \<Rightarrow> Inl x | Inr v \<Rightarrow> run ys v)"
  by (induction xs arbitrary: w) (auto split: sum.splits)

lemma page_append:
  "page (xs @ ys) w = (case page xs w of Inl x \<Rightarrow> Inl x | Inr v \<Rightarrow> run ys v)"
  by (simp add: page_def run_append split: sum.splits)

lemma onDOMContentLoaded_binds:
  "themeToggle v = Some b \<Longrightarrow>
     onDOMContentLoaded v =
       Inr (v\<lparr>themeToggle := Some (b\<lparr>listeners := listeners b @ [ToggleClick]\<rparr>)\<rparr>)"
  by (simp add: onDOMContentLoaded_def getElementById_themeToggle_def
        addEventListener_click_def)

lemma click_bound:
  assumes "controlState v = Some ([ToggleClick], p)"
  shows "\<exists>v'. step Click v = Inr v'
      \<and> controlState v' = Some ([ToggleClick], p)
      \<and> appliedTheme v' = Some (newTheme (appliedTheme v))
      \<and> getStoredTheme v' = Some (newTheme (appliedTheme v))
      \<and> iconClass v' =
          (if p then Some (if newTheme (appliedTheme v) = ''dark'' then ''bi bi-sun-fill fs-5''
                           else ''bi bi-moon-stars-fill fs-5'')
           else None)"
proof -
  from assms obtain b
    where b: "themeToggle v = Some b" "listeners b = [ToggleClick]" "p = (icon b \<noteq> None)"
    by (auto simp: controlState_def)
  then have "step Click v = onClick v" by (simp split: sum.splits)
  moreover have "\<exists>v'. onClick v = Inr v'
      \<and> controlState v' = Some ([ToggleClick], p)
      \<and> appliedTheme v' = Some (newTheme (appliedTheme v))
      \<and> getStoredTheme v' = Some (newTheme (appliedTheme v))
      \<and> iconClass v' =
          (if p then Some (if newTheme (appliedTheme v) = ''dark'' then ''bi bi-sun-fill fs-5''
                           else ''bi bi-moon-stars-fill fs-5'')
           else None)"
    unfolding onClick_eq setTheme_eq using b
    by (cases "icon b")
       (simp_all add: setStoredTheme_def setItem_def appliedTheme_def getAttribute_def
          getStoredTheme_def getItem_def iconClass_def querySelector_themeToggle_i_def
          controlState_def)
  ultimately show ?thesis by simp
qed

lemma clicks_bound:
  "controlState v = Some ([ToggleClick], p) \<Longrightarrow>
     \<exists>v'. run (replicate n Click) v = Inr v' \<and> controlState v' = Some ([ToggleClick], p)"
proof (induction n arbitrary: v)
  case 0
  then show ?case by simp
next
  case (Suc n)
  obtain v1 where v1: "step Click v = Inr v1" "controlState v1 = Some ([ToggleClick], p)"
    using click_bound [OF Suc.prems] by blast
  from Suc.IH [OF v1(2)] v1(1) show ?case
    by (simp del: step.simps)
qed

section \<open>Properties\<close>

subsection \<open>Resolver\<close>

text \<open>
  C1, as the code has it. When the Store holds a non-empty string under the theme key,
  \<open>getPreferredTheme\<close> returns that string, whatever the Platform Signal says.
\<close>

theorem getPreferredTheme_stored:
  "getStoredTheme w = Some s \<Longrightarrow> s \<noteq> [] \<Longrightarrow>
     getPreferredTheme (w\<lparr>prefersDark := b\<rparr>) = s"
  by (simp add: getPreferredTheme_def getStoredTheme_def getItem_def)

theorem getPreferredTheme_stored_witness:
  "getStoredTheme \<lparr>localStorage = [''theme'' \<mapsto> ''light''], prefersDark = False,
                   rootAttrs = Map.empty, themeToggle = None\<rparr> = Some ''light''
   \<and> ''light'' \<noteq> []
   \<and> getPreferredTheme \<lparr>localStorage = [''theme'' \<mapsto> ''light''], prefersDark = True,
                   rootAttrs = Map.empty, themeToggle = None\<rparr> = ''light''"
  using getPreferredTheme_stored
          [of "\<lparr>localStorage = [''theme'' \<mapsto> ''light''], prefersDark = False,
                rootAttrs = Map.empty, themeToggle = None\<rparr>" "''light''" True]
  by (simp add: getStoredTheme_def getItem_def)

text \<open>
  C1, as stated, fails when the string in the Store is empty: the Stored Preference is
  present, the Platform Signal is dark, and the resolver answers \<open>dark\<close>.
\<close>

theorem getPreferredTheme_stored_counterexample:
  "getStoredTheme \<lparr>localStorage = [''theme'' \<mapsto> ''''], prefersDark = True,
                   rootAttrs = Map.empty, themeToggle = None\<rparr> = Some ''''
   \<and> getPreferredTheme \<lparr>localStorage = [''theme'' \<mapsto> ''''], prefersDark = True,
                   rootAttrs = Map.empty, themeToggle = None\<rparr> = ''dark''
   \<and> getPreferredTheme \<lparr>localStorage = [''theme'' \<mapsto> ''''], prefersDark = True,
                   rootAttrs = Map.empty, themeToggle = None\<rparr> \<noteq> ''''"
  by (simp add: getPreferredTheme_def getStoredTheme_def getItem_def matchMedia_dark_def)

text \<open>
  C5. When the Stored Preference is absent, \<open>getPreferredTheme\<close> returns \<open>dark\<close> if the
  Platform Signal indicates a dark ambient preference and \<open>light\<close> otherwise.
\<close>

theorem getPreferredTheme_absent:
  "getStoredTheme w = None \<Longrightarrow>
     getPreferredTheme w = (if prefersDark w then ''dark'' else ''light'')"
  by (simp add: getPreferredTheme_def matchMedia_dark_def)

theorem getPreferredTheme_absent_witness:
  "getStoredTheme \<lparr>localStorage = Map.empty, prefersDark = True,
                   rootAttrs = Map.empty, themeToggle = None\<rparr> = None
   \<and> getPreferredTheme \<lparr>localStorage = Map.empty, prefersDark = True,
                   rootAttrs = Map.empty, themeToggle = None\<rparr> = ''dark''
   \<and> getStoredTheme \<lparr>localStorage = Map.empty, prefersDark = False,
                   rootAttrs = Map.empty, themeToggle = None\<rparr> = None
   \<and> getPreferredTheme \<lparr>localStorage = Map.empty, prefersDark = False,
                   rootAttrs = Map.empty, themeToggle = None\<rparr> = ''light''"
  using getPreferredTheme_absent
          [of "\<lparr>localStorage = Map.empty, prefersDark = True,
                rootAttrs = Map.empty, themeToggle = None\<rparr>"]
        getPreferredTheme_absent
          [of "\<lparr>localStorage = Map.empty, prefersDark = False,
                rootAttrs = Map.empty, themeToggle = None\<rparr>"]
  by (simp add: getStoredTheme_def getItem_def)

text \<open>
  C9. An empty string under the theme key is treated as absent: it fails the truthiness
  test, the resolver answers from the Platform Signal, and the answer is the one it gives
  when the key is removed from the Store.
\<close>

theorem getPreferredTheme_empty_string:
  "getStoredTheme w = Some '''' \<Longrightarrow>
     \<not> truthy (getStoredTheme w)
     \<and> getPreferredTheme w = (if prefersDark w then ''dark'' else ''light'')
     \<and> getPreferredTheme w =
         getPreferredTheme (w\<lparr>localStorage := (localStorage w)(''theme'' := None)\<rparr>)"
  by (simp add: getPreferredTheme_def getStoredTheme_def getItem_def matchMedia_dark_def)

theorem getPreferredTheme_empty_string_witness:
  "getStoredTheme \<lparr>localStorage = [''theme'' \<mapsto> ''''], prefersDark = False,
                   rootAttrs = Map.empty, themeToggle = None\<rparr> = Some ''''
   \<and> getPreferredTheme \<lparr>localStorage = [''theme'' \<mapsto> ''''], prefersDark = False,
                   rootAttrs = Map.empty, themeToggle = None\<rparr> = ''light''"
  using getPreferredTheme_empty_string
          [of "\<lparr>localStorage = [''theme'' \<mapsto> ''''], prefersDark = False,
                rootAttrs = Map.empty, themeToggle = None\<rparr>"]
  by (simp add: getStoredTheme_def getItem_def)

subsection \<open>Applier\<close>

text \<open>
  C3. For every \<open>t\<close> (so for \<open>light\<close> and \<open>dark\<close>), \<open>setTheme t\<close> completes and leaves
  the root's theme attribute at exactly \<open>t\<close>. If the icon element is found its class
  becomes the sun icon class set when \<open>t\<close> is \<open>dark\<close> and the moon icon class set for
  any other \<open>t\<close>. If it is not found, the attribute write is the only change.
\<close>

theorem setTheme_effect:
  "\<exists>w'. setTheme t w = Inr w'
      \<and> appliedTheme w' = Some t
      \<and> (querySelector_themeToggle_i w \<noteq> None \<longrightarrow>
           iconClass w' = Some (if t = ''dark'' then ''bi bi-sun-fill fs-5''
                                else ''bi bi-moon-stars-fill fs-5''))
      \<and> (querySelector_themeToggle_i w = None \<longrightarrow>
           w' = setAttribute ''data-bs-theme'' t w)"
proof (cases "querySelector_themeToggle_i w")
  case None
  then show ?thesis
    by (simp add: setTheme_no_icon appliedTheme_def getAttribute_def setAttribute_def)
next
  case (Some i)
  then obtain b where "themeToggle w = Some b" "icon b = Some i"
    by (auto simp: querySelector_themeToggle_i_def split: option.splits)
  with Some show ?thesis
    unfolding setTheme_eq
    by (simp add: appliedTheme_def getAttribute_def iconClass_def
          querySelector_themeToggle_i_def)
qed

theorem setTheme_effect_witness:
  "querySelector_themeToggle_i
       \<lparr>localStorage = Map.empty, prefersDark = False, rootAttrs = Map.empty,
        themeToggle = Some \<lparr>icon = Some \<lparr>className = ''bi''\<rparr>, listeners = []\<rparr>\<rparr> \<noteq> None
   \<and> (\<exists>w'. setTheme ''dark''
              \<lparr>localStorage = Map.empty, prefersDark = False, rootAttrs = Map.empty,
               themeToggle = Some \<lparr>icon = Some \<lparr>className = ''bi''\<rparr>, listeners = []\<rparr>\<rparr>
            = Inr w'
          \<and> appliedTheme w' = Some ''dark''
          \<and> iconClass w' = Some ''bi bi-sun-fill fs-5'')
   \<and> querySelector_themeToggle_i
       \<lparr>localStorage = Map.empty, prefersDark = False, rootAttrs = Map.empty,
        themeToggle = None\<rparr> = None
   \<and> setTheme ''light''
        \<lparr>localStorage = Map.empty, prefersDark = False, rootAttrs = Map.empty,
         themeToggle = None\<rparr>
      = Inr \<lparr>localStorage = Map.empty, prefersDark = False,
             rootAttrs = [''data-bs-theme'' \<mapsto> ''light''], themeToggle = None\<rparr>"
  using setTheme_effect
          [of "''dark''"
              "\<lparr>localStorage = Map.empty, prefersDark = False, rootAttrs = Map.empty,
                themeToggle = Some \<lparr>icon = Some \<lparr>className = ''bi''\<rparr>, listeners = []\<rparr>\<rparr>"]
        setTheme_effect
          [of "''light''"
              "\<lparr>localStorage = Map.empty, prefersDark = False, rootAttrs = Map.empty,
                themeToggle = None\<rparr>"]
  by (auto simp: querySelector_themeToggle_i_def setAttribute_def)

text \<open>
  C6. \<open>setTheme\<close> is idempotent: a second \<open>setTheme t\<close> right after the first leaves the
  root attribute and the icon's class as the first left them (the whole page, in fact).
\<close>

theorem setTheme_idempotent:
  "\<exists>w1 w2. setTheme t w = Inr w1 \<and> setTheme t w1 = Inr w2
      \<and> appliedTheme w2 = appliedTheme w1 \<and> iconClass w2 = iconClass w1 \<and> w2 = w1"
proof -
  have "setTheme t w = Inr w1 \<Longrightarrow> setTheme t w1 = Inr w1" for w1
    unfolding setTheme_eq
    by (cases "themeToggle w")
       (auto simp: option.map_comp comp_def)
  then show ?thesis
    unfolding setTheme_eq [of t w] by simp
qed

subsection \<open>Toggle controller\<close>

text \<open>
  C4, as the code has it. The script binds the click listener when \<open>DOMContentLoaded\<close>
  fires. On a page whose toggle control is then in the document, carrying no listener
  yet, every click after that event writes the opposite of the current Applied Theme
  (\<open>dark\<close> gives \<open>light\<close>, anything else gives \<open>dark\<close>) to the Store and to the Applier,
  which also gives a found icon the class of the new theme, so that after the click the
  Stored Preference equals the Applied Theme. From \<open>light\<close>, one such click gives \<open>dark\<close>
  and \<open>dark\<close>, a second click \<open>light\<close> and \<open>light\<close>.
\<close>

theorem click_flips_and_syncs:
  assumes "page pre w = Inr v" and "themeToggle v = Some b" and "listeners b = []"
  shows "\<exists>w0 w1 w2.
      page (pre @ DOMContentLoaded # replicate n Click) w = Inr w0
    \<and> page (pre @ DOMContentLoaded # replicate n Click @ [Click]) w = Inr w1
    \<and> page (pre @ DOMContentLoaded # replicate n Click @ [Click, Click]) w = Inr w2
    \<and> appliedTheme w1 = Some (newTheme (appliedTheme w0))
    \<and> getStoredTheme w1 = Some (newTheme (appliedTheme w0))
    \<and> getStoredTheme w1 = appliedTheme w1
    \<and> iconClass w1 =
        (if icon b \<noteq> None
         then Some (if newTheme (appliedTheme w0) = ''dark'' then ''bi bi-sun-fill fs-5''
                    else ''bi bi-moon-stars-fill fs-5'')
         else None)
    \<and> (appliedTheme w0 = Some ''dark'' \<longrightarrow> appliedTheme w1 = Some ''light'')
    \<and> (appliedTheme w0 \<noteq> Some ''dark'' \<longrightarrow> appliedTheme w1 = Some ''dark'')
    \<and> (appliedTheme w0 = Some ''light'' \<longrightarrow>
         appliedTheme w1 = Some ''dark'' \<and> getStoredTheme w1 = Some ''dark''
         \<and> appliedTheme w2 = Some ''light'' \<and> getStoredTheme w2 = Some ''light'')"
proof -
  let ?v0 = "v\<lparr>themeToggle := Some (b\<lparr>listeners := listeners b @ [ToggleClick]\<rparr>)\<rparr>"
  let ?p = "icon b \<noteq> None"
  have bind: "step DOMContentLoaded v = Inr ?v0"
    using assms(2) by (simp add: onDOMContentLoaded_binds)
  have bound0: "controlState ?v0 = Some ([ToggleClick], ?p)"
    using assms(3) by (simp add: controlState_def)
  obtain w0 where w0: "run (replicate n Click) ?v0 = Inr w0"
      "controlState w0 = Some ([ToggleClick], ?p)"
    using clicks_bound [OF bound0] by blast
  obtain w1 where w1: "step Click w0 = Inr w1"
      "controlState w1 = Some ([ToggleClick], ?p)"
      "appliedTheme w1 = Some (newTheme (appliedTheme w0))"
      "getStoredTheme w1 = Some (newTheme (appliedTheme w0))"
      "iconClass w1 =
        (if ?p then Some (if newTheme (appliedTheme w0) = ''dark'' then ''bi bi-sun-fill fs-5''
                          else ''bi bi-moon-stars-fill fs-5'')
         else None)"
    using click_bound [OF w0(2)] by blast
  obtain w2 where w2: "step Click w1 = Inr w2"
      "appliedTheme w2 = Some (newTheme (appliedTheme w1))"
      "getStoredTheme w2 = Some (newTheme (appliedTheme w1))"
    using click_bound [OF w1(2)] by blast
  have p0: "page (pre @ DOMContentLoaded # replicate n Click) w = Inr w0"
    using assms(1) bind w0(1) by (simp add: page_append del: step.simps)
  have p1: "page (pre @ DOMContentLoaded # replicate n Click @ [Click]) w = Inr w1"
    using assms(1) bind w0(1) w1(1) by (simp add: page_append run_append del: step.simps)
  have p2: "page (pre @ DOMContentLoaded # replicate n Click @ [Click, Click]) w = Inr w2"
    using assms(1) bind w0(1) w1(1) w2(1)
    by (simp add: page_append run_append del: step.simps)
  have flips: "(appliedTheme w0 = Some ''dark'' \<longrightarrow> appliedTheme w1 = Some ''light'')
    \<and> (appliedTheme w0 \<noteq> Some ''dark'' \<longrightarrow> appliedTheme w1 = Some ''dark'')
    \<and> (appliedTheme w0 = Some ''light'' \<longrightarrow>
         appliedTheme w1 = Some ''dark'' \<and> getStoredTheme w1 = Some ''dark''
         \<and> appliedTheme w2 = Some ''light'' \<and> getStoredTheme w2 = Some ''light'')"
    using w1(3,4) w2(2,3) by (simp add: newTheme_def)
  from p0 p1 p2 w1(3,4,5) flips show ?thesis
    by (intro exI [of _ w0] exI [of _ w1] exI [of _ w2]) simp
qed

theorem click_flips_and_syncs_witness:
  "page [Markup (Some \<lparr>icon = Some \<lparr>className = ''bi''\<rparr>, listeners = []\<rparr>)]
        \<lparr>localStorage = Map.empty, prefersDark = False, rootAttrs = Map.empty,
         themeToggle = None\<rparr>
     = Inr \<lparr>localStorage = Map.empty, prefersDark = False,
            rootAttrs = [''data-bs-theme'' \<mapsto> ''light''],
            themeToggle = Some \<lparr>icon = Some \<lparr>className = ''bi''\<rparr>, listeners = []\<rparr>\<rparr>
   \<and> (\<exists>w0 w1 w2.
         page [Markup (Some \<lparr>icon = Some \<lparr>className = ''bi''\<rparr>, listeners = []\<rparr>),
               DOMContentLoaded]
              \<lparr>localStorage = Map.empty, prefersDark = False, rootAttrs = Map.empty,
               themeToggle = None\<rparr> = Inr w0
       \<and> page [Markup (Some \<lparr>icon = Some \<lparr>className = ''bi''\<rparr>, listeners = []\<rparr>),
               DOMContentLoaded, Click]
              \<lparr>localStorage = Map.empty, prefersDark = False, rootAttrs = Map.empty,
               themeToggle = None\<rparr> = Inr w1
       \<and> page [Markup (Some \<lparr>icon = Some \<lparr>className = ''bi''\<rparr>, listeners = []\<rparr>),
               DOMContentLoaded, Click, Click]
              \<lparr>localStorage = Map.empty, prefersDark = False, rootAttrs = Map.empty,
               themeToggle = None\<rparr> = Inr w2
       \<and> appliedTheme w0 = Some ''light''
       \<and> appliedTheme w1 = Some ''dark'' \<and> getStoredTheme w1 = Some ''dark''
       \<and> iconClass w1 = Some ''bi bi-sun-fill fs-5''
       \<and> appliedTheme w2 = Some ''light'' \<and> getStoredTheme w2 = Some ''light'')"
proof -
  let ?W = "\<lparr>localStorage = Map.empty, prefersDark = False, rootAttrs = Map.empty,
             themeToggle = None\<rparr>"
  let ?B = "\<lparr>icon = Some \<lparr>className = ''bi''\<rparr>, listeners = []\<rparr>"
  let ?V = "\<lparr>localStorage = Map.empty, prefersDark = False,
             rootAttrs = [''data-bs-theme'' \<mapsto> ''light''], themeToggle = Some ?B\<rparr>"
  have pre: "page [Markup (Some ?B)] ?W = Inr ?V"
    by (simp add: page_def init_def setTheme_def getPreferredTheme_def getStoredTheme_def
          getItem_def matchMedia_dark_def setAttribute_def querySelector_themeToggle_i_def)
  have ctl: "themeToggle ?V = Some ?B" and none: "listeners ?B = []"
    by simp_all
  obtain w0 w1 w2 where r:
      "page ([Markup (Some ?B)] @ DOMContentLoaded # replicate 0 Click) ?W = Inr w0"
      "page ([Markup (Some ?B)] @ DOMContentLoaded # replicate 0 Click @ [Click]) ?W = Inr w1"
      "page ([Markup (Some ?B)] @ DOMContentLoaded # replicate 0 Click @ [Click, Click]) ?W
         = Inr w2"
      "appliedTheme w1 = Some (newTheme (appliedTheme w0))"
      "getStoredTheme w1 = appliedTheme w1"
      "iconClass w1 =
        (if icon ?B \<noteq> None
         then Some (if newTheme (appliedTheme w0) = ''dark'' then ''bi bi-sun-fill fs-5''
                    else ''bi bi-moon-stars-fill fs-5'')
         else None)"
      "appliedTheme w0 = Some ''light'' \<longrightarrow>
         appliedTheme w1 = Some ''dark'' \<and> getStoredTheme w1 = Some ''dark''
         \<and> appliedTheme w2 = Some ''light'' \<and> getStoredTheme w2 = Some ''light''"
    using click_flips_and_syncs [OF pre ctl none, of 0] by blast
  have "page [Markup (Some ?B), DOMContentLoaded] ?W =
          Inr (?V\<lparr>themeToggle := Some (?B\<lparr>listeners := [ToggleClick]\<rparr>)\<rparr>)"
    using pre by (simp add: page_append [of "[Markup (Some ?B)]" "[DOMContentLoaded]", simplified]
          onDOMContentLoaded_binds)
  with r(1) have l: "appliedTheme w0 = Some ''light''"
    by (auto simp: appliedTheme_def getAttribute_def)
  with r(4,6,7) have "appliedTheme w1 = Some ''dark'' \<and> getStoredTheme w1 = Some ''dark''
       \<and> iconClass w1 = Some ''bi bi-sun-fill fs-5''
       \<and> appliedTheme w2 = Some ''light'' \<and> getStoredTheme w2 = Some ''light''"
    by (simp add: newTheme_def)
  with pre r(1,2,3) l show ?thesis
    by (intro conjI exI [of _ w0] exI [of _ w1] exI [of _ w2]) simp_all
qed

text \<open>
  C4, as stated, fails for a click that comes before \<open>DOMContentLoaded\<close>: the control is
  in the document but carries no listener yet, the Applied Theme stays \<open>light\<close> and
  nothing is written to the Store.
\<close>

theorem click_flips_and_syncs_counterexample:
  "page [Click]
        \<lparr>localStorage = Map.empty, prefersDark = False, rootAttrs = Map.empty,
         themeToggle = Some \<lparr>icon = None, listeners = []\<rparr>\<rparr>
     = Inr \<lparr>localStorage = Map.empty, prefersDark = False,
            rootAttrs = [''data-bs-theme'' \<mapsto> ''light''],
            themeToggle = Some \<lparr>icon = None, listeners = []\<rparr>\<rparr>
   \<and> appliedTheme \<lparr>localStorage = Map.empty, prefersDark = False,
            rootAttrs = [''data-bs-theme'' \<mapsto> ''light''],
            themeToggle = Some \<lparr>icon = None, listeners = []\<rparr>\<rparr> = Some ''light''
   \<and> getStoredTheme \<lparr>localStorage = Map.empty, prefersDark = False,
            rootAttrs = [''data-bs-theme'' \<mapsto> ''light''],
            themeToggle = Some \<lparr>icon = None, listeners = []\<rparr>\<rparr> = None"
  by (simp add: page_def init_def setTheme_def getPreferredTheme_def getStoredTheme_def
        getItem_def matchMedia_dark_def setAttribute_def querySelector_themeToggle_i_def
        appliedTheme_def getAttribute_def)

text \<open>
  C10. Whatever the root attribute holds at click time (nothing, or any string), the
  value the click listener computes and writes to the Store is \<open>light\<close> or \<open>dark\<close>, so
  one click repairs a corrupt Stored Preference. The click listener is the only writer:
  at every point of the page's life the Stored Preference is the one the page was loaded
  with, or \<open>light\<close>, or \<open>dark\<close>.
\<close>

theorem store_writes_are_themes:
  "isTheme (Some (newTheme c))
   \<and> (\<exists>w'. onClick w = Inr w'
         \<and> getStoredTheme w' = Some (newTheme (getAttribute ''data-bs-theme'' w))
         \<and> isTheme (getStoredTheme w'))
   \<and> (\<exists>w'. page es w = Inr w'
         \<and> (getStoredTheme w' = getStoredTheme w \<or> isTheme (getStoredTheme w')))"
proof -
  have click: "\<exists>v'. onClick v = Inr v'
         \<and> getStoredTheme v' = Some (newTheme (getAttribute ''data-bs-theme'' v))
         \<and> isTheme (getStoredTheme v')" for v
    using onClick_frame [of v] newTheme_isTheme
    by (auto simp: appliedTheme_def getStoredTheme_def getItem_def)
  obtain w0 where w0: "init w = Inr w0" "localStorage w0 = localStorage w"
    using init_frame [of w] by blast
  have "\<exists>w'. run es w0 = Inr w'
          \<and> (getStoredTheme w' = getStoredTheme w \<or> isTheme (getStoredTheme w'))"
  proof (rule run_inv
      [where P = "\<lambda>v. getStoredTheme v = getStoredTheme w \<or> isTheme (getStoredTheme v)"])
    show "getStoredTheme w0 = getStoredTheme w \<or> isTheme (getStoredTheme w0)"
      using w0(2) by (simp add: getStoredTheme_def getItem_def)
    show "getStoredTheme v' = getStoredTheme w \<or> isTheme (getStoredTheme v')"
      if "onClick v = Inr v'" for v v'
      using click [of v] that by auto
    show "getStoredTheme (v\<lparr>themeToggle := b\<rparr>) = getStoredTheme w
            \<or> isTheme (getStoredTheme (v\<lparr>themeToggle := b\<rparr>))"
      if "getStoredTheme v = getStoredTheme w \<or> isTheme (getStoredTheme v)" for v b
      using that by (simp add: getStoredTheme_def getItem_def)
  qed
  with w0(1) have "\<exists>w'. page es w = Inr w'
         \<and> (getStoredTheme w' = getStoredTheme w \<or> isTheme (getStoredTheme w'))"
    by (simp add: page_def)
  with click [of w] newTheme_isTheme [of c] show ?thesis by blast
qed

subsection \<open>The page's life\<close>

text \<open>
  C2, as the code has it. When the Store, at load, holds no value, the empty string,
  \<open>light\<close> or \<open>dark\<close> under the theme key, the Applied Theme is \<open>light\<close> or \<open>dark\<close>
  after the load-time \<open>setTheme (getPreferredTheme ())\<close> and after every later event.
\<close>

theorem appliedTheme_valid:
  "getStoredTheme w \<in> {None, Some '''', Some ''light'', Some ''dark''} \<Longrightarrow>
     \<exists>w'. page es w = Inr w' \<and> isTheme (appliedTheme w')"
proof -
  assume stored: "getStoredTheme w \<in> {None, Some '''', Some ''light'', Some ''dark''}"
  obtain w0 where w0: "init w = Inr w0" "appliedTheme w0 = Some (getPreferredTheme w)"
    using init_frame [of w] by blast
  have "\<exists>w'. run es w0 = Inr w' \<and> isTheme (appliedTheme w')"
  proof (rule run_inv [where P = "\<lambda>v. isTheme (appliedTheme v)"])
    show "isTheme (appliedTheme w0)"
      using getPreferredTheme_isTheme [OF stored] w0(2) by simp
    show "isTheme (appliedTheme v')" if "onClick v = Inr v'" for v v'
      using that by (rule onClick_applied_isTheme)
    show "isTheme (appliedTheme (v\<lparr>themeToggle := b\<rparr>))" if "isTheme (appliedTheme v)" for v b
      using that by (simp add: appliedTheme_def getAttribute_def)
  qed
  with w0(1) show ?thesis by (simp add: page_def)
qed

theorem appliedTheme_valid_witness:
  "getStoredTheme \<lparr>localStorage = [''theme'' \<mapsto> ''dark''], prefersDark = False,
                   rootAttrs = Map.empty, themeToggle = None\<rparr>
     \<in> {None, Some '''', Some ''light'', Some ''dark''}
   \<and> (\<exists>w'. page [Markup (Some \<lparr>icon = None, listeners = []\<rparr>), DOMContentLoaded, Click]
               \<lparr>localStorage = [''theme'' \<mapsto> ''dark''], prefersDark = False,
                rootAttrs = Map.empty, themeToggle = None\<rparr> = Inr w'
          \<and> isTheme (appliedTheme w'))"
  using appliedTheme_valid
          [of "\<lparr>localStorage = [''theme'' \<mapsto> ''dark''], prefersDark = False,
                rootAttrs = Map.empty, themeToggle = None\<rparr>"
              "[Markup (Some \<lparr>icon = None, listeners = []\<rparr>), DOMContentLoaded, Click]"]
  by (simp add: getStoredTheme_def getItem_def)

text \<open>
  C2, as stated, fails when the Store holds a string that is no Theme: the load-time
  application writes that string to the root attribute.
\<close>

theorem appliedTheme_valid_counterexample:
  "init \<lparr>localStorage = [''theme'' \<mapsto> ''blue''], prefersDark = False,
         rootAttrs = Map.empty, themeToggle = None\<rparr>
     = Inr \<lparr>localStorage = [''theme'' \<mapsto> ''blue''], prefersDark = False,
            rootAttrs = [''data-bs-theme'' \<mapsto> ''blue''], themeToggle = None\<rparr>
   \<and> appliedTheme \<lparr>localStorage = [''theme'' \<mapsto> ''blue''], prefersDark = False,
            rootAttrs = [''data-bs-theme'' \<mapsto> ''blue''], themeToggle = None\<rparr> = Some ''blue''
   \<and> \<not> isTheme (appliedTheme \<lparr>localStorage = [''theme'' \<mapsto> ''blue''], prefersDark = False,
            rootAttrs = [''data-bs-theme'' \<mapsto> ''blue''], themeToggle = None\<rparr>)"
  by (simp add: init_def setTheme_def getPreferredTheme_def getStoredTheme_def getItem_def
        setAttribute_def querySelector_themeToggle_i_def appliedTheme_def getAttribute_def
        isTheme_def)

text \<open>
  C7. A missing element is never an error. Without the toggle button the
  \<open>DOMContentLoaded\<close> listener binds nothing and returns normally, leaving the page as
  it was; without the icon element \<open>setTheme\<close> still sets the root attribute and returns
  normally. A page that never has the button goes through script evaluation and
  \<open>DOMContentLoaded\<close> without an exception, and no sequence of events on any page
  raises one.
\<close>

theorem missing_elements_tolerated:
  "(getElementById_themeToggle w = None \<longrightarrow> onDOMContentLoaded w = Inr w)
   \<and> (querySelector_themeToggle_i w = None \<longrightarrow>
        (\<exists>w'. setTheme t w = Inr w' \<and> appliedTheme w' = Some t))
   \<and> (themeToggle w = None \<longrightarrow>
        (\<exists>w'. page [DOMContentLoaded] w = Inr w' \<and> themeToggle w' = None
            \<and> appliedTheme w' = Some (getPreferredTheme w)))
   \<and> (\<exists>w'. page es w = Inr w')"
proof -
  have a: "onDOMContentLoaded w = Inr w" if "getElementById_themeToggle w = None"
    using that by (simp add: onDOMContentLoaded_def)
  have b: "\<exists>w'. setTheme t w = Inr w' \<and> appliedTheme w' = Some t"
    if "querySelector_themeToggle_i w = None"
    using that
    by (simp add: setTheme_no_icon appliedTheme_def getAttribute_def setAttribute_def)
  have c: "\<exists>w'. page [DOMContentLoaded] w = Inr w' \<and> themeToggle w' = None
            \<and> appliedTheme w' = Some (getPreferredTheme w)"
    if "themeToggle w = None"
    using that
    by (simp add: page_def init_def setTheme_no_icon querySelector_themeToggle_i_def
          setAttribute_def onDOMContentLoaded_def getElementById_themeToggle_def
          appliedTheme_def getAttribute_def)
  obtain w0 where w0: "init w = Inr w0"
    using init_frame [of w] by blast
  have "\<exists>w'. run es w0 = Inr w' \<and> True"
    by (rule run_inv [where P = "\<lambda>v. True"]) simp_all
  with w0 have d: "\<exists>w'. page es w = Inr w'"
    by (simp add: page_def)
  from a b c d show ?thesis by blast
qed

theorem missing_elements_tolerated_witness:
  "getElementById_themeToggle
      \<lparr>localStorage = Map.empty, prefersDark = True, rootAttrs = Map.empty,
       themeToggle = None\<rparr> = None
   \<and> querySelector_themeToggle_i
      \<lparr>localStorage = Map.empty, prefersDark = True, rootAttrs = Map.empty,
       themeToggle = None\<rparr> = None
   \<and> onDOMContentLoaded
      \<lparr>localStorage = Map.empty, prefersDark = True, rootAttrs = Map.empty,
       themeToggle = None\<rparr>
     = Inr \<lparr>localStorage = Map.empty, prefersDark = True, rootAttrs = Map.empty,
            themeToggle = None\<rparr>
   \<and> (\<exists>w'. setTheme ''dark''
              \<lparr>localStorage = Map.empty, prefersDark = True, rootAttrs = Map.empty,
               themeToggle = None\<rparr> = Inr w'
          \<and> appliedTheme w' = Some ''dark'')
   \<and> (\<exists>w'. page [DOMContentLoaded]
              \<lparr>localStorage = Map.empty, prefersDark = True, rootAttrs = Map.empty,
               themeToggle = None\<rparr> = Inr w'
          \<and> themeToggle w' = None \<and> appliedTheme w' = Some ''dark'')"
  using missing_elements_tolerated
          [of "\<lparr>localStorage = Map.empty, prefersDark = True, rootAttrs = Map.empty,
                themeToggle = None\<rparr>" "''dark''" "[]"]
  by (simp add: getElementById_themeToggle_def querySelector_themeToggle_i_def
        getPreferredTheme_def getStoredTheme_def getItem_def matchMedia_dark_def)

text \<open>
  C8. \<open>getPreferredTheme\<close> does not write to the Store and its result is a function of
  the Store and the Platform Signal, which no operation of the script changes, so a
  repeated call gives the same result: the call after the load-time \<open>setTheme\<close>, and
  after any events up to the first click, gives the result of the call before it. The
  load path leaves the Store as it was, and so does every event up to the first click: a
  Stored Preference that is absent at load stays absent until then.
\<close>

theorem load_path_keeps_store:
  "(localStorage v = localStorage w \<and> prefersDark v = prefersDark w \<longrightarrow>
      getPreferredTheme v = getPreferredTheme w)
   \<and> (\<exists>w0. init w = Inr w0 \<and> localStorage w0 = localStorage w
          \<and> getPreferredTheme w0 = getPreferredTheme w)
   \<and> (Click \<notin> set es \<longrightarrow>
        (\<exists>w'. page es w = Inr w' \<and> localStorage w' = localStorage w
            \<and> getPreferredTheme w' = getPreferredTheme w
            \<and> (getStoredTheme w = None \<longrightarrow> getStoredTheme w' = None)))"
proof -
  have dep: "getPreferredTheme x = getPreferredTheme y"
    if "localStorage x = localStorage y" "prefersDark x = prefersDark y" for x y
    using that
    by (simp add: getPreferredTheme_def getStoredTheme_def getItem_def matchMedia_dark_def)
  obtain w0 where w0: "init w = Inr w0" "localStorage w0 = localStorage w"
      "prefersDark w0 = prefersDark w"
    using init_frame [of w] by blast
  have load: "\<exists>w0. init w = Inr w0 \<and> localStorage w0 = localStorage w
          \<and> getPreferredTheme w0 = getPreferredTheme w"
    using w0 dep [of w0 w] by simp
  have quiet: "\<exists>w'. page es w = Inr w' \<and> localStorage w' = localStorage w
            \<and> getPreferredTheme w' = getPreferredTheme w
            \<and> (getStoredTheme w = None \<longrightarrow> getStoredTheme w' = None)"
    if noclick: "Click \<notin> set es"
  proof -
    obtain b where "run es w0 = Inr (w0\<lparr>themeToggle := b\<rparr>)"
      using run_noclick [OF noclick, of w0] by blast
    with w0 dep [of "w0\<lparr>themeToggle := b\<rparr>" w] show ?thesis
      by (simp add: page_def getStoredTheme_def getItem_def)
  qed
  from dep [of v w] load quiet show ?thesis by blast
qed

theorem load_path_keeps_store_witness:
  "Click \<notin> set [Markup (Some \<lparr>icon = None, listeners = []\<rparr>), DOMContentLoaded]
   \<and> getStoredTheme \<lparr>localStorage = Map.empty, prefersDark = True,
                     rootAttrs = Map.empty, themeToggle = None\<rparr> = None
   \<and> (\<exists>w'. page [Markup (Some \<lparr>icon = None, listeners = []\<rparr>), DOMContentLoaded]
              \<lparr>localStorage = Map.empty, prefersDark = True,
               rootAttrs = Map.empty, themeToggle = None\<rparr> = Inr w'
          \<and> localStorage w' = Map.empty \<and> getStoredTheme w' = None)
   \<and> getPreferredTheme \<lparr>localStorage = Map.empty, prefersDark = True,
                     rootAttrs = [''data-bs-theme'' \<mapsto> ''dark''], themeToggle = None\<rparr>
     = getPreferredTheme \<lparr>localStorage = Map.empty, prefersDark = True,
                     rootAttrs = Map.empty, themeToggle = None\<rparr>"
proof -
  let ?W = "\<lparr>localStorage = Map.empty, prefersDark = True,
             rootAttrs = Map.empty, themeToggle = None\<rparr>"
  let ?V = "\<lparr>localStorage = Map.empty, prefersDark = True,
             rootAttrs = [''data-bs-theme'' \<mapsto> ''dark''], themeToggle = None\<rparr>"
  let ?es = "[Markup (Some \<lparr>icon = None, listeners = []\<rparr>), DOMContentLoaded]"
  have noclick: "Click \<notin> set ?es" by simp
  have absent: "getStoredTheme ?W = None"
    by (simp add: getStoredTheme_def getItem_def)
  have same: "localStorage ?V = localStorage ?W \<and> prefersDark ?V = prefersDark ?W"
    by simp
  from load_path_keeps_store [of ?V ?W ?es] noclick absent same
  have "getPreferredTheme ?V = getPreferredTheme ?W"
    and "\<exists>w'. page ?es ?W = Inr w' \<and> localStorage w' = localStorage ?W
            \<and> getStoredTheme w' = None"
    by blast+
  with noclick absent show ?thesis by simp
qed

end
